theory Spec2Isabelle
  imports Main "HOL-Library.Sublist" "HOL-Library.Word"
begin

section \<open>C strings and the GLib string functions used by main.c\<close>

text \<open>
  A \<open>gchar *\<close> is modelled as a \<^typ>\<open>string\<close>: the bytes before the terminating
  NUL. File contents are byte sequences and may contain NUL, so they are
  \<^typ>\<open>string\<close>s too; \<open>c_str\<close> is what a C function that takes a NUL-terminated
  string sees of such a byte sequence. The program runs on Linux (it includes
  \<open>unistd.h\<close> and reads \<open>st_mtim\<close>), so the directory separator is the slash.
\<close>

definition NUL :: char where
  "NUL = CHR 0x00"

definition c_str :: "string \<Rightarrow> string" where
  "c_str bytes = takeWhile (\<lambda>c. c \<noteq> NUL) bytes"

definition G_DIR_SEPARATOR :: char where
  "G_DIR_SEPARATOR = CHR ''/''"

definition G_IS_DIR_SEPARATOR :: "char \<Rightarrow> bool" where
  "G_IS_DIR_SEPARATOR c = (c = G_DIR_SEPARATOR)"

text \<open>\<open>g_ascii_tolower\<close>: only the 26 ASCII capitals change.\<close>

definition g_ascii_tolower :: "char \<Rightarrow> char" where
  "g_ascii_tolower c =
     (if (65::nat) \<le> of_char c \<and> of_char c \<le> (90::nat)
      then char_of (of_char c + (32::nat)) else c)"

text \<open>
  \<open>g_ascii_strcasecmp (s1, s2)\<close>: walks both strings while neither has ended, returns
  the difference of the first pair of lower-cased bytes that differ, and otherwise the
  difference of the bytes where the walk stopped (the terminating NUL counts as 0).
\<close>

fun g_ascii_strcasecmp :: "string \<Rightarrow> string \<Rightarrow> int" where
  "g_ascii_strcasecmp [] [] = 0"
| "g_ascii_strcasecmp [] (b # bs) = - of_char b"
| "g_ascii_strcasecmp (a # as) [] = of_char a"
| "g_ascii_strcasecmp (a # as) (b # bs) =
     (let c1 = of_char (g_ascii_tolower a) :: int;
          c2 = of_char (g_ascii_tolower b) :: int
      in if c1 \<noteq> c2 then c1 - c2 else g_ascii_strcasecmp as bs)"

text \<open>\<open>g_str_has_suffix (str, suffix)\<close>.\<close>

definition g_str_has_suffix :: "string \<Rightarrow> string \<Rightarrow> bool" where
  "g_str_has_suffix str suff = suffix suff str"

subsection \<open>\<open>g_build_filename\<close>\<close>

text \<open>
  On Unix \<open>g_build_filename\<close> is \<open>g_build_path\<close> with the separator \<open>/\<close>. The loop of
  GLib's \<open>g_build_path_va\<close> keeps five variables, which are the fields of
  \<open>build_state\<close>; \<open>build_element\<close> is one round of the loop for one element. For an
  element, \<open>start\<close> is the element after its leading separators, \<open>end\<close> cuts the
  trailing separators of \<open>start\<close>, and \<open>last_trailing\<close> is the longest suffix of
  the element made of separators only.
\<close>

record build_state =
  result :: string
  is_first :: bool
  have_leading :: bool
  single_element :: "string option"
  last_trailing :: "string option"

definition leading_seps :: "string \<Rightarrow> string" where
  "leading_seps element = takeWhile G_IS_DIR_SEPARATOR element"

definition trailing_seps :: "string \<Rightarrow> string" where
  "trailing_seps element = rev (takeWhile G_IS_DIR_SEPARATOR (rev element))"

definition element_body :: "string \<Rightarrow> string" where
  "element_body element =
     rev (dropWhile G_IS_DIR_SEPARATOR (rev (dropWhile G_IS_DIR_SEPARATOR element)))"

definition build_element :: "build_state \<Rightarrow> string \<Rightarrow> build_state" where
  "build_element s element =
     (if element = [] then s
      else
        let s1 = s\<lparr>last_trailing := Some (trailing_seps element)\<rparr>;
            s2 = (if \<not> have_leading s1
                  then s1\<lparr>single_element :=
                             (if element_body element = [] then Some element
                              else single_element s1),
                          result := result s1 @ leading_seps element,
                          have_leading := True\<rparr>
                  else s1\<lparr>single_element := None\<rparr>)
        in if element_body element = [] then s2
           else s2\<lparr>result := result s2
                              @ (if is_first s2 then [] else [G_DIR_SEPARATOR])
                              @ element_body element,
                    is_first := False\<rparr>)"

definition g_build_path_va :: "string list \<Rightarrow> string" where
  "g_build_path_va elements =
     (let s = foldl build_element
                \<lparr>result = [], is_first = True, have_leading = False,
                 single_element = None, last_trailing = None\<rparr> elements
      in case single_element s of
           Some e \<Rightarrow> e
         | None \<Rightarrow> result s @ (case last_trailing s of None \<Rightarrow> [] | Some t \<Rightarrow> t))"

definition g_build_filename :: "string \<Rightarrow> string \<Rightarrow> string" where
  "g_build_filename first_element second_element =
     g_build_path_va [first_element, second_element]"

subsection \<open>\<open>g_path_get_dirname\<close>\<close>

text \<open>
  \<open>strrchr (file_name, '/')\<close> as the index of the last separator; then the loop
  \<open>while (base > file_name && G_IS_DIR_SEPARATOR (*base)) base--\<close>; the result is the
  first \<open>1 + base - file_name\<close> bytes. Without a separator the result is \<open>.\<close>.
\<close>

fun strrchr_sep :: "string \<Rightarrow> nat option" where
  "strrchr_sep [] = None"
| "strrchr_sep (c # cs) =
     (case strrchr_sep cs of
        Some i \<Rightarrow> Some (Suc i)
      | None \<Rightarrow> if c = G_DIR_SEPARATOR then Some 0 else None)"

fun dirname_back :: "string \<Rightarrow> nat \<Rightarrow> nat" where
  "dirname_back file_name 0 = 0"
| "dirname_back file_name (Suc base) =
     (if G_IS_DIR_SEPARATOR (file_name ! Suc base) then dirname_back file_name base
      else Suc base)"

definition g_path_get_dirname :: "string \<Rightarrow> string" where
  "g_path_get_dirname file_name =
     (case strrchr_sep file_name of
        None \<Rightarrow> ''.''
      | Some base \<Rightarrow> take (1 + dirname_back file_name base) file_name)"

section \<open>The filesystem the program runs on\<close>

text \<open>
  The program reaches the filesystem only through GLib and libc calls. Their documented
  behaviour is modelled over a small POSIX tree: a list of nodes, each under its
  canonical path (the names from the root), in the order in which \<open>readdir\<close> reports
  them. The root is always a directory. Symbolic links, permissions and a working
  directory are not modelled: every path the program builds starts from
  \<open>g_get_current_dir\<close>, which is absolute.
\<close>

datatype node = File string nat | Dir

type_synonym nodes = "(string list \<times> node) list"

datatype errno = ENOENT | ENOTDIR | EISDIR | EEXIST | ENOTEMPTY | EINVAL | EBUSY

record world =
  nodes :: nodes
  now :: nat
  stat_fails :: "string list"
  strdup_addr :: "nat \<Rightarrow> 64 word"

text \<open>
  \<open>now\<close> is the clock that stamps a written file, \<open>stat_fails\<close> lists the path strings
  at which \<open>stat\<close> fails for a reason outside the tree (\<open>EOVERFLOW\<close>, \<open>EIO\<close>), and
  \<open>strdup_addr w i\<close> is the heap address that the \<open>i\<close>-th \<open>g_strdup\<close> of a listing
  returns.
\<close>

definition lookup :: "nodes \<Rightarrow> string list \<Rightarrow> node option" where
  "lookup ns p = (if p = [] then Some Dir else map_of ns p)"

definition children :: "nodes \<Rightarrow> string list \<Rightarrow> string list" where
  "children ns d = map (\<lambda>(p, n). last p) (filter (\<lambda>(p, n). p \<noteq> [] \<and> butlast p = d) ns)"


text \<open>The components of a path string: the pieces between separators, empty ones dropped.\<close>

fun split_sep :: "string \<Rightarrow> string \<Rightarrow> string list" where
  "split_sep acc [] = (if acc = [] then [] else [acc])"
| "split_sep acc (c # cs) =
     (if G_IS_DIR_SEPARATOR c then (if acc = [] then [] else [acc]) @ split_sep [] cs
      else split_sep (acc @ [c]) cs)"

definition segs :: "string \<Rightarrow> string list" where
  "segs path = split_sep [] path"

definition must_dir :: "string \<Rightarrow> bool" where
  "must_dir path = (path \<noteq> [] \<and> G_IS_DIR_SEPARATOR (last path))"

text \<open>
  Path resolution: a component is looked up in \<open>cur\<close> only if \<open>cur\<close> is a directory;
  \<open>.\<close> stays, \<open>..\<close> goes to the parent (the root is its own parent). The result is the
  canonical path of the last component, which itself need not exist.
\<close>

fun walk :: "nodes \<Rightarrow> string list \<Rightarrow> string list \<Rightarrow> errno + string list" where
  "walk ns cur [] = Inr cur"
| "walk ns cur (s # ss) =
     (case lookup ns cur of
        None \<Rightarrow> Inl ENOENT
      | Some (File c t) \<Rightarrow> Inl ENOTDIR
      | Some Dir \<Rightarrow>
          if s = ''.'' then walk ns cur ss
          else if s = ''..'' then walk ns (butlast cur) ss
          else walk ns (cur @ [s]) ss)"

definition namei :: "nodes \<Rightarrow> string \<Rightarrow> errno + string list" where
  "namei ns path = (if path = [] then Inl ENOENT else walk ns [] (segs path))"

text \<open>What exists at a path string; a trailing separator asks for a directory.\<close>

definition lookup_path :: "nodes \<Rightarrow> string \<Rightarrow> errno + node" where
  "lookup_path ns path =
     (case namei ns path of
        Inl e \<Rightarrow> Inl e
      | Inr p \<Rightarrow>
          (case lookup ns p of
             None \<Rightarrow> Inl ENOENT
           | Some Dir \<Rightarrow> Inr Dir
           | Some (File c t) \<Rightarrow> if must_dir path then Inl ENOTDIR else Inr (File c t)))"

datatype GFileTest = G_FILE_TEST_IS_DIR | G_FILE_TEST_EXISTS

fun g_file_test :: "world \<Rightarrow> string \<Rightarrow> GFileTest \<Rightarrow> bool" where
  "g_file_test w filename G_FILE_TEST_EXISTS =
     (case lookup_path (nodes w) filename of Inl e \<Rightarrow> False | Inr n \<Rightarrow> True)"
| "g_file_test w filename G_FILE_TEST_IS_DIR =
     (case lookup_path (nodes w) filename of Inr Dir \<Rightarrow> True | _ \<Rightarrow> False)"

text \<open>\<open>g_file_get_contents\<close>: the whole file, with its length.\<close>

definition g_file_get_contents :: "world \<Rightarrow> string \<Rightarrow> errno + string" where
  "g_file_get_contents w filename =
     (case lookup_path (nodes w) filename of
        Inl e \<Rightarrow> Inl e
      | Inr Dir \<Rightarrow> Inl EISDIR
      | Inr (File c t) \<Rightarrow> Inr c)"

text \<open>
  \<open>g_file_set_contents (filename, contents, length)\<close> replaces the file by one that
  holds exactly \<open>length\<close> bytes of \<open>contents\<close>; a negative \<open>length\<close> means that
  \<open>contents\<close> is NUL-terminated. It does not create directories and does not replace
  a directory.
\<close>

definition put_node :: "nodes \<Rightarrow> string list \<Rightarrow> node \<Rightarrow> nodes" where
  "put_node ns p n =
     (if map_of ns p = None then ns @ [(p, n)]
      else map (\<lambda>(q, m). if q = p then (q, n) else (q, m)) ns)"

definition g_file_set_contents :: "world \<Rightarrow> string \<Rightarrow> string \<Rightarrow> int \<Rightarrow> errno + world" where
  "g_file_set_contents w filename contents len =
     (let bytes = (if len < 0 then c_str contents else take (nat len) contents) in
      case namei (nodes w) filename of
        Inl e \<Rightarrow> Inl e
      | Inr p \<Rightarrow>
          (case lookup (nodes w) p of
             Some Dir \<Rightarrow> Inl EISDIR
           | Some (File c t) \<Rightarrow>
               if must_dir filename then Inl ENOTDIR
               else Inr (w\<lparr>nodes := put_node (nodes w) p (File bytes (now w))\<rparr>)
           | None \<Rightarrow>
               if must_dir filename then Inl ENOENT
               else Inr (w\<lparr>nodes := put_node (nodes w) p (File bytes (now w))\<rparr>)))"

text \<open>\<open>mkdir\<close>: the parent must resolve to a directory and the name must be free.\<close>

definition g_mkdir :: "nodes \<Rightarrow> string \<Rightarrow> errno + nodes" where
  "g_mkdir ns filename =
     (case namei ns filename of
        Inl e \<Rightarrow> Inl e
      | Inr p \<Rightarrow>
          (case lookup ns p of
             Some n \<Rightarrow> Inl EEXIST
           | None \<Rightarrow> Inr (put_node ns p Dir)))"

text \<open>
  \<open>g_mkdir_with_parents\<close> first tries the whole path. If that fails otherwise than with
  \<open>EEXIST\<close>, it walks the path: \<open>path_prefixes done rest\<close> are the values that \<open>fn\<close> takes
  while \<open>p\<close> scans \<open>rest\<close>, one for each run of separators after the root and the
  whole path last; \<open>mkdir_each\<close> is the
  body of the loop.
\<close>

function path_prefixes :: "string \<Rightarrow> string \<Rightarrow> string list" where
  "path_prefixes done [] = [done]"
| "path_prefixes done (c # cs) =
     (if G_IS_DIR_SEPARATOR c
      then done # path_prefixes (done @ c # takeWhile G_IS_DIR_SEPARATOR cs)
                                (dropWhile G_IS_DIR_SEPARATOR cs)
      else path_prefixes (done @ [c]) cs)"
  by pat_completeness auto
termination
  by (relation "measure (\<lambda>(d, rest). length rest)")
     (auto simp: le_imp_less_Suc length_dropWhile_le)

fun mkdir_each :: "nodes \<Rightarrow> string list \<Rightarrow> errno + nodes" where
  "mkdir_each ns [] = Inr ns"
| "mkdir_each ns (fn # rest) =
     (case lookup_path ns fn of
        Inl e0 \<Rightarrow>
          (case g_mkdir ns fn of
             Inr ns' \<Rightarrow> mkdir_each ns' rest
           | Inl e \<Rightarrow>
               if e = EEXIST then mkdir_each ns rest
               else if e \<noteq> ENOENT \<or> rest = [] then Inl e
               else mkdir_each ns rest)
      | Inr Dir \<Rightarrow> mkdir_each ns rest
      | Inr (File c t) \<Rightarrow> Inl ENOTDIR)"

definition g_mkdir_with_parents :: "world \<Rightarrow> string \<Rightarrow> errno + world" where
  "g_mkdir_with_parents w pathname =
     (if pathname = [] then Inl EINVAL
      else case g_mkdir (nodes w) pathname of
             Inr ns' \<Rightarrow> Inr (w\<lparr>nodes := ns'\<rparr>)
           | Inl e \<Rightarrow>
               if e = EEXIST
               then (if g_file_test w pathname G_FILE_TEST_IS_DIR then Inr w else Inl ENOTDIR)
               else (case mkdir_each (nodes w)
                            (path_prefixes (takeWhile G_IS_DIR_SEPARATOR pathname)
                                           (dropWhile G_IS_DIR_SEPARATOR pathname)) of
                       Inl e' \<Rightarrow> Inl e'
                     | Inr ns' \<Rightarrow> Inr (w\<lparr>nodes := ns'\<rparr>)))"

text \<open>
  \<open>g_file_delete\<close> on a local file is \<open>remove\<close>: \<open>unlink\<close> for a file, \<open>rmdir\<close> for a
  directory, which must be empty. The function has no flags and no recursive mode.
\<close>

definition has_children :: "nodes \<Rightarrow> string list \<Rightarrow> bool" where
  "has_children ns d = (children ns d \<noteq> [])"

definition g_file_delete :: "world \<Rightarrow> string \<Rightarrow> errno + world" where
  "g_file_delete w path =
     (case namei (nodes w) path of
        Inl e \<Rightarrow> Inl e
      | Inr p \<Rightarrow>
          (case lookup_path (nodes w) path of
             Inl e \<Rightarrow> Inl e
           | Inr (File c t) \<Rightarrow> Inr (w\<lparr>nodes := filter (\<lambda>(q, n). q \<noteq> p) (nodes w)\<rparr>)
           | Inr Dir \<Rightarrow>
               if p = [] then Inl EBUSY
               else if has_children (nodes w) p then Inl ENOTEMPTY
               else Inr (w\<lparr>nodes := filter (\<lambda>(q, n). q \<noteq> p) (nodes w)\<rparr>)))"

text \<open>
  \<open>rename (oldpath, newpath)\<close>: a file replaces a file, a directory replaces an empty
  directory, and a directory takes its whole subtree along.
\<close>

definition move_subtree :: "string list \<Rightarrow> string list \<Rightarrow> nodes \<Rightarrow> nodes" where
  "move_subtree p q ns =
     map (\<lambda>(r, n). if prefix p r then (q @ drop (length p) r, n) else (r, n))
       (filter (\<lambda>(r, n). r \<noteq> q) ns)"

definition rename :: "world \<Rightarrow> string \<Rightarrow> string \<Rightarrow> errno + world" where
  "rename w oldpath newpath =
     (case namei (nodes w) oldpath of
        Inl e \<Rightarrow> Inl e
      | Inr p \<Rightarrow>
          (case lookup_path (nodes w) oldpath of
             Inl e \<Rightarrow> Inl e
           | Inr n \<Rightarrow>
               (case namei (nodes w) newpath of
                  Inl e \<Rightarrow> Inl e
                | Inr q \<Rightarrow>
                    if p = q then Inr w
                    else if p = [] \<or> q = [] then Inl EBUSY
                    else if prefix p q then Inl EINVAL
                    else (case (n, lookup (nodes w) q) of
                            (Dir, Some (File c t)) \<Rightarrow> Inl ENOTDIR
                          | (Dir, Some Dir) \<Rightarrow>
                              if has_children (nodes w) q then Inl ENOTEMPTY
                              else Inr (w\<lparr>nodes := move_subtree p q (nodes w)\<rparr>)
                          | (Dir, None) \<Rightarrow> Inr (w\<lparr>nodes := move_subtree p q (nodes w)\<rparr>)
                          | (File c t, Some Dir) \<Rightarrow> Inl EISDIR
                          | (File c t, _) \<Rightarrow>
                              if must_dir newpath then Inl ENOTDIR
                              else Inr (w\<lparr>nodes := move_subtree p q (nodes w)\<rparr>)))))"

text \<open>
  \<open>g_dir_open\<close> succeeds on a directory; \<open>readdir\<close> reports \<open>.\<close>, \<open>..\<close> and the
  children, and \<open>g_dir_read_name\<close> already skips the two pseudo-entries.
\<close>

definition readdir :: "nodes \<Rightarrow> string list \<Rightarrow> string list" where
  "readdir ns d = ''.'' # ''..'' # children ns d"

definition g_dir_open :: "world \<Rightarrow> string \<Rightarrow> string list option" where
  "g_dir_open w path =
     (case namei (nodes w) path of
        Inl e \<Rightarrow> None
      | Inr p \<Rightarrow> (case lookup (nodes w) p of Some Dir \<Rightarrow> Some p | _ \<Rightarrow> None))"

definition g_dir_read_names :: "world \<Rightarrow> string list \<Rightarrow> string list" where
  "g_dir_read_names w d = filter (\<lambda>name. name \<noteq> ''.'' \<and> name \<noteq> ''..'') (readdir (nodes w) d)"

text \<open>\<open>stat\<close>: size and modification time.\<close>

definition stat :: "world \<Rightarrow> string \<Rightarrow> (nat \<times> nat) option" where
  "stat w path =
     (if path \<in> set (stat_fails w) then None
      else case lookup_path (nodes w) path of
             Inl e \<Rightarrow> None
           | Inr Dir \<Rightarrow> Some (0, 0)
           | Inr (File c t) \<Rightarrow> Some (length c, t))"

section \<open>The pointer array and its sort\<close>

text \<open>
  \<open>refresh_file_list\<close> keeps the names in a \<open>GPtrArray\<close>: an array of pointers, each
  to a copy of a name made by \<open>g_strdup\<close>. An entry of the model is the pointer
  together with the string it points to.

  \<open>g_ptr_array_sort (array, compare_func)\<close> sorts with \<open>g_qsort_with_data\<close>, a stable
  merge sort (\<open>msort_with_tmp\<close>: sort both halves, then take from the left run while
  \<open>compare_func (b1, b2) <= 0\<close>). As \<open>qsort\<close> does, it hands \<open>compare_func\<close> the
  addresses of two array slots, not the pointers stored in them. A comparison function
  that reads its arguments as C strings therefore reads the bytes of the slot: on a
  little-endian 64-bit machine the bytes of the stored pointer, lowest first, up to the
  first zero byte (a user-space address has its two highest bytes zero).
\<close>

type_synonym entry = "64 word \<times> string"

definition slot_bytes :: "64 word \<Rightarrow> string" where
  "slot_bytes p = map (\<lambda>k. char_of (unat (drop_bit (8 * k) p))) [0..<8]"

definition string_at_slot :: "entry \<Rightarrow> string" where
  "string_at_slot e = c_str (slot_bytes (fst e))"

fun merge_runs :: "(string \<Rightarrow> string \<Rightarrow> int) \<Rightarrow> entry list \<Rightarrow> entry list \<Rightarrow> entry list" where
  "merge_runs cmp [] b2 = b2"
| "merge_runs cmp (x # b1) [] = x # b1"
| "merge_runs cmp (x # b1) (y # b2) =
     (if cmp (string_at_slot x) (string_at_slot y) \<le> 0
      then x # merge_runs cmp b1 (y # b2)
      else y # merge_runs cmp (x # b1) b2)"

function msort_with_tmp :: "(string \<Rightarrow> string \<Rightarrow> int) \<Rightarrow> entry list \<Rightarrow> entry list" where
  "msort_with_tmp cmp b =
     (if length b \<le> 1 then b
      else merge_runs cmp (msort_with_tmp cmp (take (length b div 2) b))
                          (msort_with_tmp cmp (drop (length b div 2) b)))"
  by pat_completeness auto
termination
  by (relation "measure (\<lambda>(cmp, b). length b)") auto

definition g_ptr_array_sort :: "entry list \<Rightarrow> (string \<Rightarrow> string \<Rightarrow> int) \<Rightarrow> entry list" where
  "g_ptr_array_sort array compare_func = msort_with_tmp compare_func array"

section \<open>The application state and the handlers of main.c\<close>

text \<open>
  \<open>AppWidgets\<close> is the struct of the source. A widget is modelled by what it shows: the
  list box by its rows (entry name and icon) and by the entry name of the selected row,
  the text view by the bytes of its buffer (that GTK accepts valid UTF-8 only is not
  modelled), the labels and the name entry by their text.
  The status label shows one of five texts. A handler returns the dialogs it has shown,
  in order, next to the new state; \<open>on_row_activated\<close> takes the entry name stored in
  the activated row; \<open>Os_message\<close> stands for the message text that GLib
  or \<open>g_strerror\<close> derives from an error number.
\<close>

datatype icon = Folder | Text_x_generic

datatype status =
    None_selected
  | None_selected_directory_view
  | File_info string nat nat
  | Metadata_unavailable
  | Read_failed

datatype message = Text string | Os_message errno

datatype dialog =
    Error_dialog string message
  | Info_dialog string message

record AppWidgets =
  listbox :: "(string \<times> icon) list"
  selected_row :: "string option"
  textview :: string
  pathLabel :: string
  entryName :: string
  statusLabel :: status
  current_dir :: string
  selected_file_path :: "string option"

datatype GtkResponse = GTK_RESPONSE_YES | GTK_RESPONSE_NO

definition refresh_file_list :: "world \<Rightarrow> AppWidgets \<Rightarrow> dialog list \<times> AppWidgets" where
  "refresh_file_list w a =
     (let a1 = a\<lparr>listbox := [], selected_row := None, textview := [],
                 statusLabel := None_selected, selected_file_path := None,
                 pathLabel := current_dir a\<rparr>
      in case g_dir_open w (current_dir a1) of
           None \<Rightarrow>
             ([Error_dialog ''Navigation Error''
                 (Text ''Cannot open directory: Permission denied or not found.'')], a1)
         | Some dir \<Rightarrow>
             let names = filter (\<lambda>name. \<not> (name = ''.'' \<or> name = ''..''))
                           (g_dir_read_names w dir);
                 entries = map (\<lambda>(i, name). (strdup_addr w i, name))
                             (zip [0..<length names] names);
                 sorted = g_ptr_array_sort entries g_ascii_strcasecmp;
                 rows = map (\<lambda>(ptr, entry).
                               (entry,
                                if g_file_test w (g_build_filename (current_dir a1) entry)
                                     G_FILE_TEST_IS_DIR
                                then Folder else Text_x_generic)) sorted
             in ([], a1\<lparr>listbox := rows\<rparr>))"

definition on_row_activated :: "world \<Rightarrow> AppWidgets \<Rightarrow> string \<Rightarrow> dialog list \<times> AppWidgets" where
  "on_row_activated w a row_name =
     (let a1 = a\<lparr>selected_file_path := Some (g_build_filename (current_dir a) row_name)\<rparr>;
          path = g_build_filename (current_dir a) row_name
      in if g_file_test w path G_FILE_TEST_IS_DIR
         then
           (case refresh_file_list w (a1\<lparr>current_dir := path\<rparr>) of
              (ds, a2) \<Rightarrow>
                (ds, a2\<lparr>statusLabel := None_selected_directory_view, textview := [],
                        selected_file_path := None\<rparr>))
         else
           (case g_file_get_contents w path of
              Inr contents \<Rightarrow>
                ([], a1\<lparr>textview := contents,
                        statusLabel :=
                          (case stat w path of
                             Some (st_size, st_mtim) \<Rightarrow> File_info row_name st_size st_mtim
                           | None \<Rightarrow> Metadata_unavailable),
                        selected_file_path := None\<rparr>)
            | Inl err \<Rightarrow>
                ([Error_dialog ''File Read Error'' (Os_message err)],
                 a1\<lparr>textview := [], statusLabel := Read_failed,
                    selected_file_path := None\<rparr>)))"

definition on_new_clicked :: "world \<Rightarrow> AppWidgets \<Rightarrow> dialog list \<times> world \<times> AppWidgets" where
  "on_new_clicked w a =
     (let name = entryName a in
      if name = [] then ([Error_dialog ''Create Error'' (Text ''Please enter a name.'')], w, a)
      else
        let fullpath = g_build_filename (current_dir a) name;
            is_dir = (g_str_has_suffix name ''/'' \<or> g_str_has_suffix name [CHR 0x5C])
        in if g_file_test w fullpath G_FILE_TEST_EXISTS
           then ([Error_dialog ''Create Error'' (Text ''File or directory already exists.'')],
                 w, a)
           else
             (case (if is_dir then g_mkdir_with_parents w fullpath
                    else g_file_set_contents w fullpath [] 0) of
                Inl err \<Rightarrow>
                  ([Error_dialog
                      (if is_dir then ''Create Directory Error'' else ''Create File Error'')
                      (Os_message err)], w, a)
              | Inr w' \<Rightarrow>
                  (case refresh_file_list w' a of
                     (ds, a') \<Rightarrow>
                       (ds @ [Info_dialog ''Success''
                                (Text (if is_dir then ''Directory created.''
                                       else ''File created.''))],
                        w', a'\<lparr>entryName := []\<rparr>))))"

definition on_save_clicked :: "world \<Rightarrow> AppWidgets \<Rightarrow> dialog list \<times> world \<times> AppWidgets" where
  "on_save_clicked w a =
     (case selected_row a of
        None \<Rightarrow>
          ([Error_dialog ''Save Error'' (Text ''Please select a file to save.'')], w, a)
      | Some name \<Rightarrow>
          let fullpath = g_build_filename (current_dir a) name in
          if g_file_test w fullpath G_FILE_TEST_IS_DIR
          then ([Error_dialog ''Save Error'' (Text ''Cannot save content to a directory.'')],
                w, a)
          else
            (case g_file_set_contents w fullpath (textview a) (- 1) of
               Inl err \<Rightarrow> ([Error_dialog ''Save Error'' (Os_message err)], w, a)
             | Inr w' \<Rightarrow>
                 (case on_row_activated w' a name of
                    (ds, a') \<Rightarrow>
                      (Info_dialog ''Success'' (Text ''File saved (updated).'') # ds,
                       w', a'))))"

definition on_delete_clicked ::
  "world \<Rightarrow> AppWidgets \<Rightarrow> GtkResponse \<Rightarrow> dialog list \<times> world \<times> AppWidgets" where
  "on_delete_clicked w a res =
     (case selected_row a of
        None \<Rightarrow> ([Error_dialog ''Delete Error'' (Text ''Please select an item.'')], w, a)
      | Some name \<Rightarrow>
          let fullpath = g_build_filename (current_dir a) name in
          if res \<noteq> GTK_RESPONSE_YES then ([], w, a)
          else
            (case g_file_delete w fullpath of
               Inl err \<Rightarrow> ([Error_dialog ''Delete Error'' (Os_message err)], w, a)
             | Inr w' \<Rightarrow>
                 (case refresh_file_list w' a of
                    (ds, a') \<Rightarrow>
                      (ds @ [Info_dialog ''Success'' (Text ''Item deleted.'')], w', a'))))"

definition on_rename_clicked :: "world \<Rightarrow> AppWidgets \<Rightarrow> dialog list \<times> world \<times> AppWidgets" where
  "on_rename_clicked w a =
     (let newName = entryName a in
      if newName = []
      then ([Error_dialog ''Rename Error'' (Text ''Please enter new name.'')], w, a)
      else
        (case selected_row a of
           None \<Rightarrow> ([Error_dialog ''Rename Error'' (Text ''Please select an item.'')], w, a)
         | Some oldName \<Rightarrow>
             let oldpath = g_build_filename (current_dir a) oldName;
                 newpath = g_build_filename (current_dir a) newName
             in if g_file_test w newpath G_FILE_TEST_EXISTS
                then ([Error_dialog ''Rename Error''
                         (Text ''Item with the new name already exists.'')], w, a)
                else
                  (case rename w oldpath newpath of
                     Inl err \<Rightarrow> ([Error_dialog ''Rename Error'' (Os_message err)], w, a)
                   | Inr w' \<Rightarrow>
                       (case refresh_file_list w' a of
                          (ds, a') \<Rightarrow>
                            (ds @ [Info_dialog ''Success'' (Text ''Item renamed.'')],
                             w', a'\<lparr>entryName := []\<rparr>)))))"

definition on_up_clicked :: "world \<Rightarrow> AppWidgets \<Rightarrow> dialog list \<times> AppWidgets" where
  "on_up_clicked w a =
     (let parent = g_path_get_dirname (current_dir a) in
      if parent = current_dir a then ([], a)
      else refresh_file_list w (a\<lparr>current_dir := parent\<rparr>))"

text \<open>Pressing "Go Up" \<open>n\<close> times in a row.\<close>

primrec up_times :: "nat \<Rightarrow> world \<Rightarrow> AppWidgets \<Rightarrow> AppWidgets" where
  "up_times 0 w a = a"
| "up_times (Suc n) w a = up_times n w (snd (on_up_clicked w a))"

section \<open>A small home directory\<close>

text \<open>
  The directory \<open>/home/u\<close> holds, in the order \<open>readdir\<close> reports them, the file
  \<open>cherry.txt\<close>, the file \<open>apple.txt\<close> and the directory \<open>Banana\<close>, which holds
  one file. \<open>stat\<close> fails on \<open>cherry.txt\<close>. The allocator hands out increasing
  addresses, 32 bytes apart.
\<close>

definition demo_world :: world where
  "demo_world =
     \<lparr>nodes = [([''home''], Dir),
               ([''home'', ''u''], Dir),
               ([''home'', ''u'', ''cherry.txt''], File ''pits'' 1),
               ([''home'', ''u'', ''apple.txt''], File ''core'' 2),
               ([''home'', ''u'', ''Banana''], Dir),
               ([''home'', ''u'', ''Banana'', ''peel''], File [] 3)],
      now = 7,
      stat_fails = [''/home/u/cherry.txt''],
      strdup_addr = (\<lambda>i. 0x555555560010 + 32 * of_nat i)\<rparr>"

definition demo_app :: AppWidgets where
  "demo_app =
     \<lparr>listbox = [], selected_row = None, textview = [], pathLabel = [], entryName = [],
      statusLabel = None_selected, current_dir = ''/home/u'', selected_file_path = None\<rparr>"

text \<open>
  Three states of the application in \<open>/home/u\<close>: one whose editor holds \<open>pie\<close> and
  one whose editor is empty, both with \<open>apple.txt\<close> selected, and one whose current
  directory is written with a trailing separator.
\<close>

definition pie_app :: AppWidgets where
  "pie_app = demo_app\<lparr>selected_row := Some ''apple.txt'', textview := ''pie''\<rparr>"


definition slash_app :: AppWidgets where
  "slash_app = demo_app\<lparr>current_dir := ''/home/u/''\<rparr>"





section \<open>Facts about the filesystem model\<close>

declare g_file_test.simps [simp del]

lemmas path_eval =
  g_build_filename_def g_build_path_va_def build_element_def trailing_seps_def
  leading_seps_def element_body_def G_IS_DIR_SEPARATOR_def G_DIR_SEPARATOR_def
  g_path_get_dirname_def

lemmas fs_eval =
  lookup_path_def namei_def segs_def lookup_def must_dir_def children_def has_children_def
  g_file_test.simps g_file_get_contents_def g_file_set_contents_def g_mkdir_def
  g_mkdir_with_parents_def g_file_delete_def g_dir_open_def g_dir_read_names_def readdir_def
  stat_def put_node_def c_str_def NUL_def

lemma map_of_replace:
  "map_of (map (\<lambda>(r, k). if r = p then (r, n) else (r, k)) ns) q =
   (if q = p then map_option (\<lambda>k. n) (map_of ns p) else map_of ns q)"
proof (induction ns)
  case Nil
  show ?case by simp
next
  case (Cons x ns)
  obtain r k where x: "x = (r, k)" by (cases x)
  show ?case
    using Cons.IH by (cases "r = p"; cases "q = p") (simp_all add: x)
qed

lemma map_of_put_node:
  "map_of (put_node ns p n) q = (if q = p then Some n else map_of ns q)"
proof (cases "map_of ns p")
  case None
  then show ?thesis
    by (auto simp: put_node_def map_add_def split: option.splits)
next
  case (Some m)
  then show ?thesis
    by (simp add: put_node_def map_of_replace)
qed

lemma lookup_put_node:
  "p \<noteq> [] \<Longrightarrow> lookup (put_node ns p n) q = (if q = p then Some n else lookup ns q)"
  by (simp add: lookup_def map_of_put_node)

text \<open>Resolution only asks which paths are directories, so new directories keep it.\<close>

lemma walk_mono:
  "(\<And>q. lookup ns q = Some Dir \<Longrightarrow> lookup ns' q = Some Dir) \<Longrightarrow>
   walk ns cur ss = Inr p \<Longrightarrow> walk ns' cur ss = Inr p"
proof (induction ss arbitrary: cur)
  case Nil
  then show ?case by simp
next
  case (Cons s ss)
  from Cons.prems(2) have d: "lookup ns cur = Some Dir"
    by (auto split: option.splits node.splits)
  then have d': "lookup ns' cur = Some Dir"
    by (rule Cons.prems(1))
  from Cons.prems(2) d d' Cons.IH [OF Cons.prems(1)] show ?case
    by (auto split: if_splits)
qed

lemma namei_mono:
  "(\<And>q. lookup ns q = Some Dir \<Longrightarrow> lookup ns' q = Some Dir) \<Longrightarrow>
   namei ns path = Inr p \<Longrightarrow> namei ns' path = Inr p"
  by (auto simp: namei_def split: if_splits intro: walk_mono)

text \<open>What \<open>g_file_set_contents\<close> has written is what \<open>g_file_get_contents\<close> reads.\<close>

lemma set_then_get_contents:
  assumes "g_file_set_contents w filename contents len = Inr w'"
  shows "g_file_get_contents w' filename =
         Inr (if len < 0 then c_str contents else take (nat len) contents)"
proof -
  let ?bytes = "if len < 0 then c_str contents else take (nat len) contents"
  from assms obtain p where p: "namei (nodes w) filename = Inr p"
    by (auto simp: g_file_set_contents_def Let_def split: sum.splits)
  from assms p have nd: "lookup (nodes w) p \<noteq> Some Dir" and md: "\<not> must_dir filename"
    and w': "w' = w\<lparr>nodes := put_node (nodes w) p (File ?bytes (now w))\<rparr>"
    by (auto simp: g_file_set_contents_def Let_def split: option.splits node.splits if_splits)
  from nd have ne: "p \<noteq> []" by (auto simp: lookup_def)
  have "\<And>q. lookup (nodes w) q = Some Dir \<Longrightarrow> lookup (nodes w') q = Some Dir"
    using nd ne by (auto simp: w' lookup_put_node)
  then have "namei (nodes w') filename = Inr p"
    using p by (rule namei_mono)
  moreover have "lookup (nodes w') p = Some (File ?bytes (now w))"
    using ne by (simp add: w' lookup_put_node)
  ultimately show ?thesis
    using md by (simp add: g_file_get_contents_def lookup_path_def)
qed

lemma save_success:
  assumes "selected_row a = Some name"
    and "on_save_clicked w a =
           (Info_dialog ''Success'' (Text ''File saved (updated).'') # ds, w', a')"
  shows "g_file_set_contents w (g_build_filename (current_dir a) name) (textview a) (- 1) = Inr w'"
    and "on_row_activated w' a name = (ds, a')"
  using assms
  by (auto simp: on_save_clicked_def Let_def split: if_splits sum.splits prod.splits)



lemma refresh_keeps_current_dir:
  "current_dir (snd (refresh_file_list w a)) = current_dir a"
  by (simp add: refresh_file_list_def Let_def split: option.splits)

lemma refresh_current_dir:
  "refresh_file_list w a = (ds, a') \<Longrightarrow> current_dir a' = current_dir a"
  using refresh_keeps_current_dir [of w a] by simp

lemma descend_current_dir:
  assumes "g_file_test w (g_build_filename (current_dir a) name) G_FILE_TEST_IS_DIR"
  shows "current_dir (snd (on_row_activated w a name)) = g_build_filename (current_dir a) name"
  using assms
  by (auto simp: on_row_activated_def Let_def split: prod.splits dest: refresh_current_dir)

section \<open>Facts about the path functions\<close>

lemma dirname_root: "g_path_get_dirname ''/'' = ''/''"
  by (simp add: path_eval)

lemma strrchr_sep_none: "G_DIR_SEPARATOR \<notin> set cs \<Longrightarrow> strrchr_sep cs = None"
  by (induction cs) auto

lemma strrchr_sep_last:
  "G_DIR_SEPARATOR \<notin> set cs \<Longrightarrow> strrchr_sep (xs @ G_DIR_SEPARATOR # cs) = Some (length xs)"
  by (induction xs) (simp_all add: strrchr_sep_none)

lemma dirname_of_child:
  assumes "p \<noteq> []" "last p \<noteq> G_DIR_SEPARATOR" "G_DIR_SEPARATOR \<notin> set c"
  shows "g_path_get_dirname (p @ G_DIR_SEPARATOR # c) = p"
proof -
  obtain k where k: "length p = Suc k"
    using assms(1) by (cases p) auto
  have lastp: "(p @ G_DIR_SEPARATOR # c) ! k = last p"
    using assms(1) k by (simp add: nth_append last_conv_nth)
  have "dirname_back (p @ G_DIR_SEPARATOR # c) (Suc k) = k"
  proof (cases k)
    case 0
    then show ?thesis using k by (simp add: G_IS_DIR_SEPARATOR_def nth_append)
  next
    case (Suc j)
    then show ?thesis
      using k lastp assms(2) by (simp add: G_IS_DIR_SEPARATOR_def nth_append)
  qed
  then show ?thesis
    using k assms(3) by (simp add: g_path_get_dirname_def strrchr_sep_last)
qed

lemma dirname_of_root_child:
  "G_DIR_SEPARATOR \<notin> set c \<Longrightarrow> g_path_get_dirname (G_DIR_SEPARATOR # c) = [G_DIR_SEPARATOR]"
  using strrchr_sep_last [of c "[]"] by (simp add: g_path_get_dirname_def)


lemma dropWhile_rev_last:
  "xs \<noteq> [] \<Longrightarrow> \<not> P (last xs) \<Longrightarrow> dropWhile P (rev xs) = rev xs"
  by (cases xs rule: rev_cases) simp_all

lemma takeWhile_rev_last:
  "xs \<noteq> [] \<Longrightarrow> \<not> P (last xs) \<Longrightarrow> takeWhile P (rev xs) = []"
  by (cases xs rule: rev_cases) simp_all

lemma dropWhile_keeps_last:
  "xs \<noteq> [] \<Longrightarrow> \<not> P (last xs) \<Longrightarrow>
   dropWhile P xs \<noteq> [] \<and> last (dropWhile P xs) = last xs"
  by (induction xs) (auto split: if_splits)

lemma element_body_plain:
  assumes "p \<noteq> []" "last p \<noteq> G_DIR_SEPARATOR"
  shows "element_body p = dropWhile G_IS_DIR_SEPARATOR p"
    and "dropWhile G_IS_DIR_SEPARATOR p \<noteq> []"
    and "trailing_seps p = []"
proof -
  have nl: "\<not> G_IS_DIR_SEPARATOR (last p)"
    using assms(2) by (simp add: G_IS_DIR_SEPARATOR_def)
  have d: "dropWhile G_IS_DIR_SEPARATOR p \<noteq> []"
    "\<not> G_IS_DIR_SEPARATOR (last (dropWhile G_IS_DIR_SEPARATOR p))"
    using dropWhile_keeps_last [where xs = p and P = G_IS_DIR_SEPARATOR] assms(1) nl
    by simp_all
  show "element_body p = dropWhile G_IS_DIR_SEPARATOR p"
    using dropWhile_rev_last [where xs = "dropWhile G_IS_DIR_SEPARATOR p"
                                and P = G_IS_DIR_SEPARATOR] d
    by (simp add: element_body_def)
  show "dropWhile G_IS_DIR_SEPARATOR p \<noteq> []"
    by (rule d(1))
  show "trailing_seps p = []"
    using takeWhile_rev_last [where xs = p and P = G_IS_DIR_SEPARATOR] assms(1) nl
    by (simp add: trailing_seps_def)
qed

lemma plain_name:
  assumes "c \<noteq> []" "G_DIR_SEPARATOR \<notin> set c"
  shows "element_body c = c" and "trailing_seps c = []" and "leading_seps c = []"
proof -
  have lc: "last c \<noteq> G_DIR_SEPARATOR"
    using assms last_in_set by metis
  have dc: "dropWhile G_IS_DIR_SEPARATOR c = c"
    using assms by (cases c) (auto simp: G_IS_DIR_SEPARATOR_def)
  show "element_body c = c"
    using element_body_plain(1) [OF assms(1) lc] dc by simp
  show "trailing_seps c = []"
    by (rule element_body_plain(3) [OF assms(1) lc])
  show "leading_seps c = []"
    using assms by (cases c) (auto simp: leading_seps_def G_IS_DIR_SEPARATOR_def)
qed

lemma build_filename_child:
  assumes "p \<noteq> []" "last p \<noteq> G_DIR_SEPARATOR" "c \<noteq> []" "G_DIR_SEPARATOR \<notin> set c"
  shows "g_build_filename p c = p @ G_DIR_SEPARATOR # c"
proof -
  note bp = element_body_plain [OF assms(1,2)]
  note bc = plain_name [OF assms(3,4)]
  have s1: "build_element \<lparr>result = [], is_first = True, have_leading = False,
                           single_element = None, last_trailing = None\<rparr> p =
            \<lparr>result = p, is_first = False, have_leading = True,
             single_element = None, last_trailing = Some []\<rparr>"
    by (simp add: build_element_def Let_def assms(1) bp leading_seps_def
          del: dropWhile_eq_Nil_conv)
  have s2: "build_element \<lparr>result = p, is_first = False, have_leading = True,
                           single_element = None, last_trailing = Some []\<rparr> c =
            \<lparr>result = p @ G_DIR_SEPARATOR # c, is_first = False, have_leading = True,
             single_element = None, last_trailing = Some []\<rparr>"
    by (simp add: build_element_def Let_def assms(3) bc)
  show ?thesis
    by (simp add: g_build_filename_def g_build_path_va_def s1 s2)
qed

lemma build_filename_root_child:
  assumes "c \<noteq> []" "G_DIR_SEPARATOR \<notin> set c"
  shows "g_build_filename [G_DIR_SEPARATOR] c = G_DIR_SEPARATOR # c"
proof -
  note bc = plain_name [OF assms]
  have s1: "build_element \<lparr>result = [], is_first = True, have_leading = False,
                           single_element = None, last_trailing = None\<rparr> [G_DIR_SEPARATOR] =
            \<lparr>result = [G_DIR_SEPARATOR], is_first = True, have_leading = True,
             single_element = Some [G_DIR_SEPARATOR],
             last_trailing = Some [G_DIR_SEPARATOR]\<rparr>"
    by (simp add: build_element_def Let_def leading_seps_def trailing_seps_def
          element_body_def G_IS_DIR_SEPARATOR_def)
  have s2: "build_element \<lparr>result = [G_DIR_SEPARATOR], is_first = True, have_leading = True,
                           single_element = Some [G_DIR_SEPARATOR],
                           last_trailing = Some [G_DIR_SEPARATOR]\<rparr> c =
            \<lparr>result = G_DIR_SEPARATOR # c, is_first = False, have_leading = True,
             single_element = None, last_trailing = Some []\<rparr>"
    by (simp add: build_element_def Let_def assms(1) bc)
  show ?thesis
    by (simp add: g_build_filename_def g_build_path_va_def s1 s2)
qed

lemma descend_then_ascend_string:
  assumes "p = [G_DIR_SEPARATOR] \<or> (p \<noteq> [] \<and> last p \<noteq> G_DIR_SEPARATOR)"
    and "c \<noteq> []" "G_DIR_SEPARATOR \<notin> set c"
  shows "g_path_get_dirname (g_build_filename p c) = p"
    and "g_build_filename p c \<noteq> p"
    and "g_build_filename p c = (if p = [G_DIR_SEPARATOR] then p @ c else p @ G_DIR_SEPARATOR # c)"
  using assms
  by (auto simp: build_filename_child build_filename_root_child dirname_of_child
        dirname_of_root_child)

section \<open>Path strings and their components\<close>









section \<open>Creating directories\<close>














section \<open>The listing\<close>













section \<open>Evaluating the pointer bytes\<close>

lemma char_of_nat_eq_iff: "char_of (n::nat) = c \<longleftrightarrow> n mod 256 = of_char c"
proof
  assume "char_of n = c"
  then have "of_char (char_of n) = (of_char c :: nat)" by simp
  then show "n mod 256 = of_char c" by simp
next
  assume "n mod 256 = of_char c"
  then have "char_of (n mod 256) = char_of (of_char c :: nat)" by simp
  then show "char_of n = c" by simp
qed

lemma int_of_char_of_nat: "(of_char (char_of (n::nat)) :: int) = int (n mod 256)"
proof -
  have "(of_char (char_of n) :: int) = int (of_char (char_of n))"
    by (simp only: of_nat_of_char)
  then show ?thesis by simp
qed

lemma demo_addr:
  "string_at_slot (strdup_addr demo_world 0, n0) = [CHR 0x10]"
  "string_at_slot (strdup_addr demo_world (Suc 0), n1) = [CHR 0x30]"
  "string_at_slot (strdup_addr demo_world (Suc (Suc 0)), n2) = [CHR 0x50]"
  by (simp_all add: demo_world_def string_at_slot_def c_str_def NUL_def slot_bytes_def upt_rec
      drop_bit_eq_div char_of_nat_eq_iff)

lemma demo_save_pie:
  "on_save_clicked demo_world pie_app =
     ([Info_dialog ''Success'' (Text ''File saved (updated).'')],
      demo_world\<lparr>nodes := [([''home''], Dir),
                             ([''home'', ''u''], Dir),
                             ([''home'', ''u'', ''cherry.txt''], File ''pits'' 1),
                             ([''home'', ''u'', ''apple.txt''], File ''pie'' 7),
                             ([''home'', ''u'', ''Banana''], Dir),
                             ([''home'', ''u'', ''Banana'', ''peel''], File [] 3)]\<rparr>,
      pie_app\<lparr>statusLabel := File_info ''apple.txt'' 3 7\<rparr>)"
  by (simp add: on_save_clicked_def on_row_activated_def Let_def pie_app_def demo_app_def
        demo_world_def path_eval fs_eval)



lemma demo_exists:
  "g_file_test demo_world (g_build_filename ''/home/u'' ''Banana'') G_FILE_TEST_EXISTS"
  by (simp add: demo_world_def path_eval fs_eval)

section \<open>The claims\<close>

text \<open>
  C1. The claim: a listing is sorted by case-insensitive comparison of the names, so that
  \<open>apple.txt\<close>, \<open>Banana\<close>, \<open>cherry.txt\<close> come in this order. The source passes
  \<open>g_ascii_strcasecmp\<close> itself to \<open>g_ptr_array_sort\<close>, which calls it on the addresses
  of the array slots; the comparison then reads the bytes of the pointers, not the names.
  In the home directory above, where \<open>readdir\<close> reports \<open>cherry.txt\<close> first and the
  copies of the names lie at increasing addresses, the list box shows the names in the
  order of their addresses: \<open>cherry.txt\<close>, \<open>apple.txt\<close>, \<open>Banana\<close>, although
  \<open>cherry.txt\<close> compares greater than \<open>apple.txt\<close>.
\<close>

theorem refresh_file_list_order_follows_addresses:
  "map fst (listbox (snd (refresh_file_list demo_world demo_app))) =
     [''cherry.txt'', ''apple.txt'', ''Banana'']
   \<and> 0 < g_ascii_strcasecmp ''cherry.txt'' ''apple.txt''"
proof -
  have names: "g_dir_open demo_world ''/home/u'' = Some [''home'', ''u'']"
    "g_dir_read_names demo_world [''home'', ''u''] = [''cherry.txt'', ''apple.txt'', ''Banana'']"
    by (simp_all add: demo_world_def fs_eval G_IS_DIR_SEPARATOR_def G_DIR_SEPARATOR_def)
  have sorted: "g_ptr_array_sort
          [(strdup_addr demo_world 0, ''cherry.txt''), (strdup_addr demo_world (Suc 0), ''apple.txt''),
           (strdup_addr demo_world (Suc (Suc 0)), ''Banana'')] g_ascii_strcasecmp =
          [(strdup_addr demo_world 0, ''cherry.txt''), (strdup_addr demo_world (Suc 0), ''apple.txt''),
           (strdup_addr demo_world (Suc (Suc 0)), ''Banana'')]"
    by (simp add: g_ptr_array_sort_def demo_addr g_ascii_tolower_def Let_def int_of_char_of_nat)
  have "map fst (listbox (snd (refresh_file_list demo_world demo_app))) =
          [''cherry.txt'', ''apple.txt'', ''Banana'']"
    by (simp add: refresh_file_list_def demo_app_def names upt_rec sorted del: msort_with_tmp.simps)
  moreover have "0 < g_ascii_strcasecmp ''cherry.txt'' ''apple.txt''"
    by (simp add: g_ascii_tolower_def)
  ultimately show ?thesis by simp
qed

text \<open>
  C2. The claim: deleting a non-empty directory removes it with all its descendants.
  \<open>g_file_delete\<close> removes a file or an empty directory only: with \<open>Banana\<close>
  selected, which holds a file, the handler shows the error for \<open>ENOTEMPTY\<close> and
  leaves the filesystem and the state as they were, so the directory stays listed.
\<close>

theorem on_delete_clicked_nonempty_directory_fails:
  "on_delete_clicked demo_world (demo_app\<lparr>selected_row := Some ''Banana''\<rparr>) GTK_RESPONSE_YES =
     ([Error_dialog ''Delete Error'' (Os_message ENOTEMPTY)],
      demo_world, demo_app\<lparr>selected_row := Some ''Banana''\<rparr>)
   \<and> ''Banana'' \<in> set (g_dir_read_names demo_world [''home'', ''u''])
   \<and> children (nodes demo_world) [''home'', ''u'', ''Banana''] = [''peel'']"
proof -
  have "on_delete_clicked demo_world (demo_app\<lparr>selected_row := Some ''Banana''\<rparr>)
          GTK_RESPONSE_YES =
        ([Error_dialog ''Delete Error'' (Os_message ENOTEMPTY)],
         demo_world, demo_app\<lparr>selected_row := Some ''Banana''\<rparr>)"
    by (simp add: on_delete_clicked_def demo_app_def demo_world_def path_eval fs_eval)
  moreover have "''Banana'' \<in> set (g_dir_read_names demo_world [''home'', ''u''])"
    by (simp add: demo_world_def g_dir_read_names_def readdir_def children_def)
  moreover have "children (nodes demo_world) [''home'', ''u'', ''Banana''] = [''peel'']"
    by (simp add: demo_world_def children_def)
  ultimately show ?thesis by simp
qed



text \<open>
  C4. Whenever something exists at the path built from the current directory and the
  entered name, creating fails with "File or directory already exists." and renaming the
  selected entry fails with "Item with the new name already exists."; both leave the
  filesystem and the state unchanged. The check comes before any call that creates or
  renames.
\<close>

theorem existing_target_rejected:
  "entryName a \<noteq> [] \<Longrightarrow>
   g_file_test w (g_build_filename (current_dir a) (entryName a)) G_FILE_TEST_EXISTS \<Longrightarrow>
   on_new_clicked w a =
     ([Error_dialog ''Create Error'' (Text ''File or directory already exists.'')], w, a)
   \<and> (selected_row a \<noteq> None \<longrightarrow>
        on_rename_clicked w a =
          ([Error_dialog ''Rename Error'' (Text ''Item with the new name already exists.'')],
           w, a))"
  by (auto simp: on_new_clicked_def on_rename_clicked_def Let_def)

theorem existing_target_rejected_witness:
  "entryName (demo_app\<lparr>entryName := ''Banana'', selected_row := Some ''apple.txt''\<rparr>) \<noteq> []
   \<and> g_file_test demo_world (g_build_filename ''/home/u'' ''Banana'') G_FILE_TEST_EXISTS
   \<and> selected_row (demo_app\<lparr>entryName := ''Banana'', selected_row := Some ''apple.txt''\<rparr>)
       \<noteq> None
   \<and> on_new_clicked demo_world
         (demo_app\<lparr>entryName := ''Banana'', selected_row := Some ''apple.txt''\<rparr>) =
       ([Error_dialog ''Create Error'' (Text ''File or directory already exists.'')],
        demo_world, demo_app\<lparr>entryName := ''Banana'', selected_row := Some ''apple.txt''\<rparr>)
   \<and> on_rename_clicked demo_world
         (demo_app\<lparr>entryName := ''Banana'', selected_row := Some ''apple.txt''\<rparr>) =
       ([Error_dialog ''Rename Error'' (Text ''Item with the new name already exists.'')],
        demo_world, demo_app\<lparr>entryName := ''Banana'', selected_row := Some ''apple.txt''\<rparr>)"
  using existing_target_rejected
          [of "demo_app\<lparr>entryName := ''Banana'', selected_row := Some ''apple.txt''\<rparr>"
              demo_world]
        demo_exists
  by (simp add: demo_app_def)

text \<open>
  C5. At the root, where the parent that \<open>g_path_get_dirname\<close> computes is the path
  itself, "Go Up" shows no dialog and changes nothing, however often it is pressed.
\<close>

theorem up_at_root_is_noop:
  "current_dir a = ''/'' \<Longrightarrow> on_up_clicked w a = ([], a) \<and> up_times n w a = a"
proof -
  assume root: "current_dir a = ''/''"
  have one: "on_up_clicked w a = ([], a)"
    by (simp add: on_up_clicked_def root dirname_root)
  have "up_times n w a = a"
    by (induction n) (simp_all add: one)
  with one show ?thesis by simp
qed

theorem up_at_root_is_noop_witness:
  "current_dir (demo_app\<lparr>current_dir := ''/''\<rparr>) = ''/'' \<and>
   on_up_clicked demo_world (demo_app\<lparr>current_dir := ''/''\<rparr>) =
     ([], demo_app\<lparr>current_dir := ''/''\<rparr>) \<and>
   up_times 3 demo_world (demo_app\<lparr>current_dir := ''/''\<rparr>) = demo_app\<lparr>current_dir := ''/''\<rparr>"
  using up_at_root_is_noop [of "demo_app\<lparr>current_dir := ''/''\<rparr>" demo_world 3]
  by simp

text \<open>
  C6, as the claim states it, fails for a current directory written with a trailing
  separator: from \<open>/home/u/\<close>, entering \<open>Banana\<close> and going up again ends in
  \<open>/home/u\<close>, which is another string.
\<close>

theorem descend_then_ascend_drops_trailing_separator:
  "g_file_test demo_world (g_build_filename (current_dir slash_app) ''Banana'')
     G_FILE_TEST_IS_DIR
   \<and> current_dir (snd (on_up_clicked demo_world
                          (snd (on_row_activated demo_world slash_app ''Banana''))))
       = ''/home/u''
   \<and> current_dir (snd (on_up_clicked demo_world
                          (snd (on_row_activated demo_world slash_app ''Banana''))))
       \<noteq> current_dir slash_app"
proof -
  have path: "g_build_filename (current_dir slash_app) ''Banana'' = ''/home/u/Banana''"
    by (simp add: slash_app_def demo_app_def path_eval)
  have dir: "g_file_test demo_world (g_build_filename (current_dir slash_app) ''Banana'')
               G_FILE_TEST_IS_DIR"
    by (simp add: path) (simp add: demo_world_def G_IS_DIR_SEPARATOR_def G_DIR_SEPARATOR_def fs_eval)
  have parent: "g_path_get_dirname ''/home/u/Banana'' = ''/home/u''"
    by (simp add: path_eval)
  have "current_dir (snd (on_up_clicked demo_world
                          (snd (on_row_activated demo_world slash_app ''Banana''))))
       = ''/home/u''"
    by (simp add: on_up_clicked_def Let_def descend_current_dir [OF dir] path parent
          refresh_keeps_current_dir)
  with dir show ?thesis
    by (simp add: slash_app_def)
qed

text \<open>
  C6, amended: if the current directory is the root \<open>/\<close> or a non-empty path that does
  not end with a separator, and the activated name is non-empty, has no separator in it
  and is a directory, then activating it sets the current directory to the plain
  concatenation of the two (with one separator between them unless the directory is the
  root; names such as \<open>..\<close> are not resolved), and "Go Up" then restores exactly the
  former current directory.
\<close>

theorem descend_then_ascend:
  assumes "current_dir a = ''/'' \<or> (current_dir a \<noteq> [] \<and> last (current_dir a) \<noteq> CHR ''/'')"
    and "name \<noteq> []" and "CHR ''/'' \<notin> set name"
    and "g_file_test w (g_build_filename (current_dir a) name) G_FILE_TEST_IS_DIR"
  shows "current_dir (snd (on_row_activated w a name)) =
           (if current_dir a = ''/'' then ''/'' @ name else current_dir a @ ''/'' @ name)
         \<and> current_dir (snd (on_up_clicked w (snd (on_row_activated w a name)))) = current_dir a"
proof -
  let ?p = "current_dir a"
  have p: "?p = [G_DIR_SEPARATOR] \<or> (?p \<noteq> [] \<and> last ?p \<noteq> G_DIR_SEPARATOR)"
    using assms(1) by (simp add: G_DIR_SEPARATOR_def)
  have c: "G_DIR_SEPARATOR \<notin> set name"
    using assms(3) by (simp add: G_DIR_SEPARATOR_def)
  note s = descend_then_ascend_string [OF p assms(2) c]
  note down = descend_current_dir [OF assms(4)]
  have up: "current_dir (snd (on_up_clicked w (snd (on_row_activated w a name)))) = ?p"
    using s(1,2) by (simp add: on_up_clicked_def Let_def down refresh_keeps_current_dir)
  show ?thesis
    using down up s(3) by (simp add: G_DIR_SEPARATOR_def)
qed

theorem descend_then_ascend_witness:
  "(current_dir demo_app = ''/'' \<or>
      (current_dir demo_app \<noteq> [] \<and> last (current_dir demo_app) \<noteq> CHR ''/''))
   \<and> ''Banana'' \<noteq> [] \<and> CHR ''/'' \<notin> set ''Banana''
   \<and> g_file_test demo_world (g_build_filename (current_dir demo_app) ''Banana'')
        G_FILE_TEST_IS_DIR
   \<and> current_dir (snd (on_row_activated demo_world demo_app ''Banana'')) = ''/home/u/Banana''
   \<and> current_dir (snd (on_up_clicked demo_world
                          (snd (on_row_activated demo_world demo_app ''Banana''))))
       = ''/home/u''"
proof -
  have h1: "current_dir demo_app = ''/'' \<or>
      (current_dir demo_app \<noteq> [] \<and> last (current_dir demo_app) \<noteq> CHR ''/'')"
    by (simp add: demo_app_def)
  have h2: "''Banana'' \<noteq> []" and h3: "CHR ''/'' \<notin> set ''Banana''"
    by simp_all
  have h4: "g_file_test demo_world (g_build_filename (current_dir demo_app) ''Banana'')
        G_FILE_TEST_IS_DIR"
    by (simp add: demo_app_def demo_world_def path_eval fs_eval)
  from descend_then_ascend [OF h1 h2 h3 h4] h1 h4 show ?thesis
    by (simp add: demo_app_def)
qed

text \<open>
  C7. If the selected entry is a directory, saving fails with "Cannot save content to a
  directory." and nothing is written. If saving succeeds, the file holds exactly the text
  of the editor as the C string that was passed, whatever it held before: the content is
  replaced, not appended to.
\<close>

theorem save_overwrites_or_refuses_directory:
  "(selected_row a1 = Some name1 \<and>
    g_file_test w1 (g_build_filename (current_dir a1) name1) G_FILE_TEST_IS_DIR \<longrightarrow>
      on_save_clicked w1 a1 =
        ([Error_dialog ''Save Error'' (Text ''Cannot save content to a directory.'')], w1, a1))
   \<and>
   (selected_row a2 = Some name2 \<and>
    on_save_clicked w2 a2 =
      (Info_dialog ''Success'' (Text ''File saved (updated).'') # ds, w', a') \<longrightarrow>
      g_file_get_contents w' (g_build_filename (current_dir a2) name2)
        = Inr (c_str (textview a2)))"
proof (intro conjI impI; elim conjE)
  assume "selected_row a1 = Some name1"
    and "g_file_test w1 (g_build_filename (current_dir a1) name1) G_FILE_TEST_IS_DIR"
  then show "on_save_clicked w1 a1 =
      ([Error_dialog ''Save Error'' (Text ''Cannot save content to a directory.'')], w1, a1)"
    by (simp add: on_save_clicked_def)
next
  assume "selected_row a2 = Some name2"
    and "on_save_clicked w2 a2 =
            (Info_dialog ''Success'' (Text ''File saved (updated).'') # ds, w', a')"
  then have "g_file_set_contents w2 (g_build_filename (current_dir a2) name2) (textview a2) (- 1)
               = Inr w'"
    by (rule save_success)
  then show "g_file_get_contents w' (g_build_filename (current_dir a2) name2)
               = Inr (c_str (textview a2))"
    by (simp add: set_then_get_contents)
qed

theorem save_overwrites_or_refuses_directory_witness:
  "selected_row (demo_app\<lparr>selected_row := Some ''Banana''\<rparr>) = Some ''Banana'' \<and>
   g_file_test demo_world (g_build_filename ''/home/u'' ''Banana'') G_FILE_TEST_IS_DIR \<and>
   on_save_clicked demo_world (demo_app\<lparr>selected_row := Some ''Banana''\<rparr>) =
     ([Error_dialog ''Save Error'' (Text ''Cannot save content to a directory.'')],
      demo_world, demo_app\<lparr>selected_row := Some ''Banana''\<rparr>) \<and>
   selected_row pie_app = Some ''apple.txt'' \<and>
   fst (on_save_clicked demo_world pie_app) =
     [Info_dialog ''Success'' (Text ''File saved (updated).'')] \<and>
   g_file_get_contents demo_world (g_build_filename ''/home/u'' ''apple.txt'') = Inr ''core'' \<and>
   g_file_get_contents (fst (snd (on_save_clicked demo_world pie_app)))
     (g_build_filename ''/home/u'' ''apple.txt'') = Inr ''pie''"
proof -
  have sel1: "selected_row (demo_app\<lparr>selected_row := Some ''Banana''\<rparr>) = Some ''Banana''"
    by simp
  have dir: "g_file_test demo_world
               (g_build_filename (current_dir (demo_app\<lparr>selected_row := Some ''Banana''\<rparr>))
                  ''Banana'') G_FILE_TEST_IS_DIR"
    by (simp add: demo_app_def demo_world_def path_eval fs_eval)
  have sel2: "selected_row pie_app = Some ''apple.txt''"
    by (simp add: pie_app_def)
  have old: "g_file_get_contents demo_world (g_build_filename ''/home/u'' ''apple.txt'')
               = Inr ''core''"
    by (simp add: demo_world_def path_eval fs_eval)
  have cur: "current_dir pie_app = ''/home/u''" "c_str (textview pie_app) = ''pie''"
    "current_dir demo_app = ''/home/u''"
    by (simp_all add: pie_app_def demo_app_def c_str_def NUL_def)
  from save_overwrites_or_refuses_directory
         [of "demo_app\<lparr>selected_row := Some ''Banana''\<rparr>" "''Banana''" demo_world
             pie_app "''apple.txt''" demo_world "[]" _ _]
       sel1 dir sel2 old demo_save_pie
  show ?thesis
    by (simp add: cur)
qed

text \<open>
  C8. Reading the content and probing the metadata fail independently: when
  \<open>g_file_get_contents\<close> succeeds on the activated entry and \<open>stat\<close> fails, the
  handler shows no error dialog, puts the content into the editor and sets the status
  to "Metadata unavailable".
\<close>

theorem content_without_metadata:
  "g_file_get_contents w (g_build_filename (current_dir a) name) = Inr contents \<Longrightarrow>
   stat w (g_build_filename (current_dir a) name) = None \<Longrightarrow>
   on_row_activated w a name =
     ([], a\<lparr>textview := contents, statusLabel := Metadata_unavailable,
            selected_file_path := None\<rparr>)"
  by (auto simp: on_row_activated_def Let_def g_file_get_contents_def g_file_test.simps
           split: sum.splits node.splits)

theorem content_without_metadata_witness:
  "g_file_get_contents demo_world (g_build_filename (current_dir demo_app) ''cherry.txt'')
     = Inr ''pits'' \<and>
   stat demo_world (g_build_filename (current_dir demo_app) ''cherry.txt'') = None \<and>
   on_row_activated demo_world demo_app ''cherry.txt'' =
     ([], demo_app\<lparr>textview := ''pits'', statusLabel := Metadata_unavailable,
                   selected_file_path := None\<rparr>)"
proof -
  have r: "g_file_get_contents demo_world (g_build_filename (current_dir demo_app) ''cherry.txt'')
             = Inr ''pits''"
    by (simp add: demo_world_def demo_app_def path_eval fs_eval)
  have s: "stat demo_world (g_build_filename (current_dir demo_app) ''cherry.txt'') = None"
    by (simp add: demo_world_def demo_app_def path_eval fs_eval)
  from content_without_metadata [OF r s] r s show ?thesis by simp
qed




text \<open>
  C10. With an empty name in the entry field, creating and renaming both stop at their
  first check: one error dialog, and the filesystem and the whole state, the current
  directory included, are returned unchanged. (\<open>gtk_entry_get_text\<close> never returns
  \<open>NULL\<close>, so the empty string is the only absent name.)
\<close>

theorem empty_name_rejected:
  "entryName a = [] \<Longrightarrow>
   on_new_clicked w a = ([Error_dialog ''Create Error'' (Text ''Please enter a name.'')], w, a)
   \<and> on_rename_clicked w a =
       ([Error_dialog ''Rename Error'' (Text ''Please enter new name.'')], w, a)"
  by (simp add: on_new_clicked_def on_rename_clicked_def)

theorem empty_name_rejected_witness:
  "entryName demo_app = [] \<and>
   on_new_clicked demo_world demo_app =
     ([Error_dialog ''Create Error'' (Text ''Please enter a name.'')], demo_world, demo_app)
   \<and> on_rename_clicked demo_world demo_app =
     ([Error_dialog ''Rename Error'' (Text ''Please enter new name.'')], demo_world, demo_app)"
  using empty_name_rejected [of demo_app demo_world] by (simp add: demo_app_def)

end
